theory Spec2Isabelle
  imports Complex_Main "HOL-Library.Char_ord" "HOL-Library.List_Lexorder" "HOL-Library.Multiset"
begin

section \<open>Numbers and their formatting\<close>

text \<open>
  Amounts are the float64 (or int64) cells of a pandas column. The embedding takes them
  as exact reals: rounding and overflow of float64 are outside it. What numpy does where
  the reals have no answer is written out: a true division by zero does not raise, it
  yields \<open>inf\<close>, \<open>-inf\<close> or \<open>nan\<close> (with a RuntimeWarning), so the result
  of a division is an \<open>npfloat\<close>.
\<close>

datatype npfloat = Fin real | PosInf | NegInf | NaN

text \<open>\<^verbatim>\<open>a / b\<close> on numpy scalars.\<close>

definition np_truediv :: "real \<Rightarrow> real \<Rightarrow> npfloat" where
  "np_truediv a b =
     (if b \<noteq> 0 then Fin (a / b)
      else if 0 < a then PosInf
      else if a < 0 then NegInf
      else NaN)"

text \<open>\<^verbatim>\<open>x * c\<close> for a positive finite constant \<open>c\<close> (the source multiplies by 100).\<close>

definition np_times :: "npfloat \<Rightarrow> real \<Rightarrow> npfloat" where
  "np_times x c = (case x of Fin r \<Rightarrow> Fin (r * c) | PosInf \<Rightarrow> PosInf | NegInf \<Rightarrow> NegInf | NaN \<Rightarrow> NaN)"

text \<open>\<^verbatim>\<open>x > c\<close>: every comparison with \<open>nan\<close> is false.\<close>

definition np_gt :: "npfloat \<Rightarrow> real \<Rightarrow> bool" where
  "np_gt x c = (case x of Fin r \<Rightarrow> c < r | PosInf \<Rightarrow> True | NegInf \<Rightarrow> False | NaN \<Rightarrow> False)"

text \<open>
  The format specifications \<^verbatim>\<open>.1f\<close> and \<^verbatim>\<open>,.0f\<close> of the f-strings: the value is
  rounded to the nearest multiple of the last printed digit, ties to even, and a
  negative value keeps its sign even when it rounds to zero.
\<close>

definition round_half_even :: "real \<Rightarrow> int" where
  "round_half_even x =
     (let f = \<lfloor>x\<rfloor>; d = x - of_int f
      in if d < 1 / 2 then f
         else if 1 / 2 < d then f + 1
         else if even f then f else f + 1)"

definition digit_char :: "nat \<Rightarrow> char" where
  "digit_char n = ''0123456789'' ! (n mod 10)"

fun digits :: "nat \<Rightarrow> string" where
  "digits n = (if n < 10 then [digit_char n] else digits (n div 10) @ [digit_char n])"

fun commas :: "string \<Rightarrow> string" where
  "commas ds =
     (if length ds \<le> 3 then ds
      else commas (take (length ds - 3) ds) @ '','' @ drop (length ds - 3) ds)"

text \<open>
  Both equations recurse under a condition on a variable: they are unfolded by hand or
  by code evaluation, never by the simplifier on its own.
\<close>

declare digits.simps [simp del] commas.simps [simp del]

definition sign_prefix :: "real \<Rightarrow> string" where
  "sign_prefix x = (if x < 0 then ''-'' else [])"

definition format_1f_real :: "real \<Rightarrow> string" where
  "format_1f_real x =
     (let n = nat (round_half_even (\<bar>x\<bar> * 10))
      in sign_prefix x @ digits (n div 10) @ ''.'' @ [digit_char n])"

definition format_comma_0f_real :: "real \<Rightarrow> string" where
  "format_comma_0f_real x = sign_prefix x @ commas (digits (nat (round_half_even \<bar>x\<bar>)))"

definition format_1f :: "npfloat \<Rightarrow> string" where
  "format_1f x =
     (case x of Fin r \<Rightarrow> format_1f_real r | PosInf \<Rightarrow> ''inf'' | NegInf \<Rightarrow> ''-inf'' | NaN \<Rightarrow> ''nan'')"

definition format_comma_0f :: "npfloat \<Rightarrow> string" where
  "format_comma_0f x =
     (case x of Fin r \<Rightarrow> format_comma_0f_real r | PosInf \<Rightarrow> ''inf'' | NegInf \<Rightarrow> ''-inf''
      | NaN \<Rightarrow> ''nan'')"

section \<open>The data model\<close>

datatype py_error = ValueError | KeyError | DateParseError | AttributeError

record timestamp =
  ts_year :: int
  ts_month :: int
  ts_day :: int

text \<open>
  A cell of the \<open>date\<close> column is the string a CSV file or \<open>load_sample_data\<close> put
  there, or the datetime that \<open>pd.to_datetime\<close> made of it.
\<close>

datatype date_cell = DateStr string | Ts timestamp

text \<open>
  One row of the DataFrame; the frame is the list of its rows, in order. Every row has
  a category: a missing one (\<open>NaN\<close>, which \<open>groupby\<close> would drop) and cells that
  are not numbers are outside the model.
\<close>

record transaction =
  date :: date_cell
  income :: real
  spending :: real
  category :: string

type_synonym frame = "transaction list"

text \<open>
  A pandas Series with an index of labels: the list of its (label, value) pairs in
  index order.
\<close>

type_synonym 'k series = "('k \<times> real) list"

record metrics =
  total_income :: real
  total_expenses :: real
  net_savings :: real
  savings_rate :: real
  avg_monthly_income :: npfloat
  expense_by_category :: "string series"

record recommendation =
  rec_type :: string
  title :: string
  message :: string

record financial_plan =
  recommendations :: "recommendation list"
  goals :: "string list"

section \<open>Series operations\<close>

text \<open>
  \<^verbatim>\<open>groupby(key)[col].sum()\<close>: one entry per distinct key, keys in sorted order
  (\<open>sort=True\<close> is the default), the value the sum of the group's rows.
\<close>

definition groupby_sum :: "('k::linorder \<times> real) list \<Rightarrow> 'k series" where
  "groupby_sum kvs =
     map (\<lambda>k. (k, sum_list (map snd (filter (\<lambda>kv. fst kv = k) kvs))))
       (sort (remdups (map fst kvs)))"

text \<open>\<^verbatim>\<open>Series.mean()\<close>: \<open>nan\<close> on an empty Series.\<close>

definition series_mean :: "'k series \<Rightarrow> npfloat" where
  "series_mean s = (if s = [] then NaN else Fin (sum_list (map snd s) / real (length s)))"

text \<open>
  \<^verbatim>\<open>Series.idxmax()\<close>: the label of the first occurrence of the maximum;
  ValueError on an empty Series.
\<close>

definition argmax_step :: "'k \<times> real \<Rightarrow> 'k \<times> real \<Rightarrow> 'k \<times> real" where
  "argmax_step best kv = (if snd best < snd kv then kv else best)"

definition idxmax :: "'k series \<Rightarrow> py_error + 'k" where
  "idxmax s = (case s of [] \<Rightarrow> Inl ValueError | kv # kvs \<Rightarrow> Inr (fst (foldl argmax_step kv kvs)))"

text \<open>\<^verbatim>\<open>Series.max()\<close>: \<open>nan\<close> on an empty Series.\<close>

definition series_max :: "'k series \<Rightarrow> npfloat" where
  "series_max s = (case s of [] \<Rightarrow> NaN | kv # kvs \<Rightarrow> Fin (snd (foldl argmax_step kv kvs)))"

text \<open>
  \<^verbatim>\<open>series[label]\<close> used as a number: KeyError when the label is absent; when the
  label occurs more than once the lookup yields a Series, and using that as the
  condition of an \<^verbatim>\<open>if\<close> raises ValueError.
\<close>

definition series_getitem :: "'k series \<Rightarrow> 'k \<Rightarrow> py_error + real" where
  "series_getitem s k =
     (case filter (\<lambda>kv. fst kv = k) s of
        [] \<Rightarrow> Inl KeyError
      | [kv] \<Rightarrow> Inr (snd kv)
      | _ \<Rightarrow> Inl ValueError)"

section \<open>FinancialAnalyzerAgent.analyze\<close>

text \<open>
  \<^verbatim>\<open>pd.to_datetime(data['date'])\<close>: the parser of date strings is pandas' own and is
  a parameter \<open>parse\<close> here; a cell that is a datetime already is kept, and one string
  that does not parse makes the whole call raise.
\<close>

definition to_datetime_cell :: "(string \<Rightarrow> timestamp option) \<Rightarrow> date_cell \<Rightarrow> timestamp option" where
  "to_datetime_cell parse c = (case c of Ts t \<Rightarrow> Some t | DateStr s \<Rightarrow> parse s)"

fun to_datetime :: "(string \<Rightarrow> timestamp option) \<Rightarrow> date_cell list \<Rightarrow> timestamp list option" where
  "to_datetime parse [] = Some []"
| "to_datetime parse (c # cs) =
     (case to_datetime_cell parse c of
        None \<Rightarrow> None
      | Some t \<Rightarrow> (case to_datetime parse cs of None \<Rightarrow> None | Some ts \<Rightarrow> Some (t # ts)))"

text \<open>\<^verbatim>\<open>data['date'] = ...\<close>: the column of the caller's frame is replaced in place.\<close>

definition assign_date :: "frame \<Rightarrow> timestamp list \<Rightarrow> frame" where
  "assign_date data ts = map (\<lambda>(r, t). r\<lparr>date := Ts t\<rparr>) (zip data ts)"

text \<open>\<^verbatim>\<open>.dt.to_period('M')\<close>: the month of a datetime, as the count of months since 1970-01.\<close>

definition to_period_M :: "timestamp \<Rightarrow> int" where
  "to_period_M t = (ts_year t - 1970) * 12 + (ts_month t - 1)"

text \<open>
  The month of a row. After the assignment above every cell is a datetime, so the
  second case does not occur where \<open>analyze\<close> calls this.
\<close>

definition period_of :: "transaction \<Rightarrow> int" where
  "period_of r = (case date r of Ts t \<Rightarrow> to_period_M t | DateStr s \<Rightarrow> 0)"

text \<open>
  The call returns the metrics or raises, and leaves the caller's frame as the second
  component. The local \<open>income_std\<close> of the source is computed and never used; it is
  left out.
\<close>

definition analyze :: "(string \<Rightarrow> timestamp option) \<Rightarrow> frame \<Rightarrow> (py_error + metrics) \<times> frame" where
  "analyze parse data0 =
     (case to_datetime parse (map date data0) of
        None \<Rightarrow> (Inl DateParseError, data0)
      | Some ts \<Rightarrow>
          (let data = assign_date data0 ts;
               total_income = sum_list (map income data);
               total_expenses = sum_list (map spending data);
               net_savings = total_income - total_expenses;
               savings_rate = (if 0 < total_income then net_savings / total_income * 100 else 0);
               monthly_income =
                 groupby_sum (map (\<lambda>r. (period_of r, income r)) (filter (\<lambda>r. 0 < income r) data));
               income_mean = series_mean monthly_income;
               expense_by_category =
                 groupby_sum (map (\<lambda>r. (category r, spending r)) (filter (\<lambda>r. 0 < spending r) data))
           in (Inr \<lparr>total_income = total_income, total_expenses = total_expenses,
                    net_savings = net_savings, savings_rate = savings_rate,
                    avg_monthly_income = income_mean,
                    expense_by_category = expense_by_category\<rparr>,
               data)))"

section \<open>FinancialPlannerAgent.create_plan\<close>

definition savings_rule_rec :: "metrics \<Rightarrow> recommendation" where
  "savings_rule_rec a =
     (if savings_rate a < 10
      then \<lparr>rec_type = ''critical'', title = ''Low Savings Rate Detected'',
            message = ''Your savings rate is '' @ format_1f_real (savings_rate a)
              @ ''%. Target at least 15-20% for financial stability.''\<rparr>
      else \<lparr>rec_type = ''success'', title = ''Excellent Savings Rate'',
            message = ''Great job! Your '' @ format_1f_real (savings_rate a)
              @ ''% savings rate is above average.''\<rparr>)"

definition savings_rule_goals :: "metrics \<Rightarrow> string list" where
  "savings_rule_goals a =
     (if savings_rate a < 10 then [''Increase savings rate to 15% within 3 months''] else [])"

definition top_share :: "metrics \<Rightarrow> string \<Rightarrow> py_error + npfloat" where
  "top_share a top_expense_cat =
     (case series_getitem (expense_by_category a) top_expense_cat of
        Inl e \<Rightarrow> Inl e
      | Inr v \<Rightarrow> Inr (np_times (np_truediv v (total_income a)) 100))"

definition create_plan :: "metrics \<Rightarrow> py_error + financial_plan" where
  "create_plan a =
     (let recommendations = [savings_rule_rec a];
          goals = savings_rule_goals a
      in case idxmax (expense_by_category a) of
           Inl e \<Rightarrow> Inl e
         | Inr top_expense_cat \<Rightarrow>
             (case top_share a top_expense_cat of
                Inl e \<Rightarrow> Inl e
              | Inr share \<Rightarrow>
                  if np_gt share 15
                  then Inr \<lparr>recommendations = recommendations @
                              [\<lparr>rec_type = ''warning'',
                                title = ''High '' @ top_expense_cat @ '' Spending'',
                                message = top_expense_cat @ '' spending is '' @ format_1f share
                                  @ ''% of income. Consider reducing to 10%.''\<rparr>],
                            goals = goals @ [''Reduce '' @ top_expense_cat @ '' spending by 30%'']\<rparr>
                  else Inr \<lparr>recommendations = recommendations, goals = goals\<rparr>))"

section \<open>FinancialAdvisorAgent.generate_advice\<close>

text \<open>
  Strings are byte strings (UTF-8). \<^verbatim>\<open>str.lower()\<close> is modelled on the ASCII letters;
  the bytes of other characters are kept, which leaves the answer to every keyword test
  below as Python gives it: the keywords are ASCII, and no character outside ASCII
  lowers to a text that completes one of them.
\<close>

definition lower_char :: "char \<Rightarrow> char" where
  "lower_char c =
     (case map_of (zip ''ABCDEFGHIJKLMNOPQRSTUVWXYZ'' ''abcdefghijklmnopqrstuvwxyz'') c of
        Some d \<Rightarrow> d
      | None \<Rightarrow> c)"

definition lower :: "string \<Rightarrow> string" where
  "lower s = map lower_char s"

fun starts_with :: "string \<Rightarrow> string \<Rightarrow> bool" where
  "starts_with [] s = True"
| "starts_with (p # ps) [] = False"
| "starts_with (p # ps) (c # cs) = (p = c \<and> starts_with ps cs)"

text \<open>\<^verbatim>\<open>sub in s\<close> on strings.\<close>

fun str_contains :: "string \<Rightarrow> string \<Rightarrow> bool" where
  "str_contains sub [] = (sub = [])"
| "str_contains sub (c # cs) = (starts_with sub (c # cs) \<or> str_contains sub cs)"

record advisor =
  adv_analysis :: metrics
  adv_plan :: financial_plan

text \<open>The rupee sign U+20B9, as its three UTF-8 bytes.\<close>

definition rupee :: string where
  "rupee = [CHR 0xE2, CHR 0x82, CHR 0xB9]"

definition summary_reply :: "metrics \<Rightarrow> string" where
  "summary_reply a =
     ''Your overall financial health is fair. You have a savings rate of ''
     @ format_1f_real (savings_rate a) @ ''% and a net savings of '' @ rupee
     @ format_comma_0f_real (net_savings a)
     @ ''. Your main challenge is a low savings rate, but you have a stable income. Focusing on reducing non-essential spending will significantly improve your financial standing.''"

definition savings_reply :: "metrics \<Rightarrow> string" where
  "savings_reply a =
     ''Based on your current financial data, you're saving ''
     @ format_1f_real (savings_rate a)
     @ ''% of your income. The recommended savings rate is 15-20%. I suggest setting up automatic transfers to a savings account right after you receive income.''"

definition spending_reply :: "metrics \<Rightarrow> py_error + string" where
  "spending_reply a =
     (case idxmax (expense_by_category a) of
        Inl e \<Rightarrow> Inl e
      | Inr top_expense \<Rightarrow>
          (let top_amount = series_max (expense_by_category a)
           in Inr (''Your highest expense category is '' @ top_expense @ '' at '' @ rupee
                   @ format_comma_0f top_amount
                   @ ''. I recommend reviewing this category for potential savings.'')))"

definition fallback_reply :: string where
  "fallback_reply =
     ''I can answer questions about savings, spending, and your financial plan. What would you like to know?''"

text \<open>
  The method reads \<open>self.analysis\<close> and assigns nothing; the advisor object after the
  call is the second component of the result.
\<close>

definition generate_advice :: "advisor \<Rightarrow> string \<Rightarrow> (py_error + string) \<times> advisor" where
  "generate_advice self query =
     (let query_lower = lower query
      in if str_contains ''summarize'' query_lower \<or> str_contains ''health'' query_lower
         then (Inr (summary_reply (adv_analysis self)), self)
         else if str_contains ''savings'' query_lower \<or> str_contains ''save'' query_lower
         then (Inr (savings_reply (adv_analysis self)), self)
         else if str_contains ''spending'' query_lower \<or> str_contains ''expenses'' query_lower
         then (spending_reply (adv_analysis self), self)
         else (Inr fallback_reply, self))"

section \<open>generate_suggested_questions\<close>

text \<open>
  \<^verbatim>\<open>random.sample(population, k)\<close>, as CPython computes it for a small population:
  each pick draws an index below the size of the pool, takes that element and moves
  the pool's last element into its place. The generator is the parameter \<open>rnd\<close>: the
  \<open>i\<close>-th draw is \<open>rnd i\<close>, reduced to the range of the pick. ValueError when the
  sample is larger than the population.
\<close>

fun sample_pool :: "(nat \<Rightarrow> nat) \<Rightarrow> nat \<Rightarrow> 'a list \<Rightarrow> nat \<Rightarrow> 'a list" where
  "sample_pool rnd i pool 0 = []"
| "sample_pool rnd i pool (Suc k) =
     (let j = rnd i mod length pool
      in pool ! j # sample_pool rnd (Suc i) (butlast (pool[j := last pool])) k)"

definition random_sample :: "(nat \<Rightarrow> nat) \<Rightarrow> 'a list \<Rightarrow> nat \<Rightarrow> py_error + 'a list" where
  "random_sample rnd population k =
     (if length population < k then Inl ValueError else Inr (sample_pool rnd 0 population k))"

definition generate_suggested_questions :: "(nat \<Rightarrow> nat) \<Rightarrow> metrics \<Rightarrow> py_error + string list" where
  "generate_suggested_questions rnd a =
     (let questions = [''Summarize my financial health.'', ''What is my top priority?'']
      in case idxmax (expense_by_category a) of
           Inl e \<Rightarrow> Inl e
         | Inr top_expense \<Rightarrow>
             (let questions = questions @ [''How can I reduce my spending on '' @ top_expense @ ''?''];
                  questions =
                    (if savings_rate a < 15
                     then questions @ [''Give me 3 ways to improve my savings rate.'']
                     else questions)
              in random_sample rnd questions (min (length questions) 4)))"

section \<open>create_visualizations\<close>

text \<open>
  The function converts the date column of the caller's frame in place, as \<open>analyze\<close>
  does, and builds two figures from the frame and the analysis; the figures are output
  only and are left out.
\<close>

definition create_visualizations :: "(string \<Rightarrow> timestamp option) \<Rightarrow> frame \<Rightarrow> (py_error + unit) \<times> frame" where
  "create_visualizations parse data0 =
     (case to_datetime parse (map date data0) of
        None \<Rightarrow> (Inl DateParseError, data0)
      | Some ts \<Rightarrow> (Inr (), assign_date data0 ts))"

section \<open>main: the script over the session state\<close>

text \<open>
  Streamlit runs \<open>main\<close> from the top on every interaction, with
  \<open>st.session_state\<close> kept between the runs. The session state is a record, a key
  that is absent is \<open>None\<close>. Four counters that the source does not have are added
  as probes: how often \<open>analyze\<close> and \<open>create_plan\<close> were called, and how often
  they returned. What a run only displays is left out.
\<close>

record chat_message =
  role :: string
  content :: string

record session =
  financial_data :: "frame option"
  step :: "nat option"
  analysis :: "metrics option"
  plan :: "financial_plan option"
  advisor :: "advisor option"
  chat_history :: "chat_message list option"
  suggested_questions :: "string list option"
  analyze_calls :: nat
  analyze_returns :: nat
  create_plan_calls :: nat
  create_plan_returns :: nat

text \<open>
  What the widgets return in one run. The sidebar shows, by the radio button, either
  the file uploader (\<open>Some df\<close>: a file is there, and \<open>df\<close> is what \<open>pd.read_csv\<close>
  reads from it) or the button "Load Sample Data" (\<open>Some df\<close>: it was clicked, and
  \<open>df\<close> is what \<open>load_sample_data\<close> generated). At most one button of the page,
  or the chat input, fires in a run.
\<close>

datatype sidebar = UseSampleData "frame option" | UploadCSV "frame option"

datatype click = NoClick | StartAnalysis | SendToPlanner | ActivateAdvisor | Suggestion nat
  | ChatInput string

record ui =
  sidebar_input :: sidebar
  clicked :: click
  draws :: "nat \<Rightarrow> nat"

text \<open>How a run of the script ends: at its last line, at \<open>st.rerun()\<close>, or by an exception.\<close>

datatype signal = Continue | Rerun | Raised py_error

definition and_then :: "signal \<times> session \<Rightarrow> (session \<Rightarrow> signal \<times> session) \<Rightarrow> signal \<times> session" where
  "and_then r f = (case r of (Continue, s) \<Rightarrow> f s | _ \<Rightarrow> r)"

text \<open>The loop that deletes the six keys after new data was stored.\<close>

definition reset_keys :: "session \<Rightarrow> session" where
  "reset_keys s =
     s\<lparr>step := None, analysis := None, plan := None, advisor := None,
       chat_history := None, suggested_questions := None\<rparr>"

definition run_sidebar :: "ui \<Rightarrow> session \<Rightarrow> session" where
  "run_sidebar u s =
     (case sidebar_input u of
        UploadCSV (Some df) \<Rightarrow> reset_keys (s\<lparr>financial_data := Some df\<rparr>)
      | UploadCSV None \<Rightarrow> s
      | UseSampleData (Some df) \<Rightarrow> reset_keys (s\<lparr>financial_data := Some df\<rparr>)
      | UseSampleData None \<Rightarrow> s)"

definition at_least :: "nat option \<Rightarrow> nat \<Rightarrow> bool" where
  "at_least st n = (case st of None \<Rightarrow> False | Some k \<Rightarrow> n \<le> k)"

definition stage_idle :: "ui \<Rightarrow> session \<Rightarrow> signal \<times> session" where
  "stage_idle u s =
     (if step s = Some 0 \<and> clicked u = StartAnalysis
      then (Rerun, s\<lparr>step := Some 1\<rparr>)
      else (Continue, s))"

definition stage_analyzer :: "(string \<Rightarrow> timestamp option) \<Rightarrow> session \<Rightarrow> signal \<times> session" where
  "stage_analyzer parse s =
     (if at_least (step s) 1 \<and> analysis s = None
      then (case financial_data s of
              None \<Rightarrow> (Raised AttributeError, s)
            | Some data \<Rightarrow>
                (let s1 = s\<lparr>analyze_calls := analyze_calls s + 1\<rparr>
                 in case analyze parse data of
                      (Inl e, data') \<Rightarrow> (Raised e, s1\<lparr>financial_data := Some data'\<rparr>)
                    | (Inr a, data') \<Rightarrow>
                        (Continue, s1\<lparr>financial_data := Some data', analysis := Some a,
                                      analyze_returns := analyze_returns s1 + 1\<rparr>)))
      else (Continue, s))"

definition stage_to_planner :: "ui \<Rightarrow> session \<Rightarrow> signal \<times> session" where
  "stage_to_planner u s =
     (if step s = Some 1 \<and> clicked u = SendToPlanner
      then (Rerun, s\<lparr>step := Some 2\<rparr>)
      else (Continue, s))"

definition stage_planner :: "session \<Rightarrow> signal \<times> session" where
  "stage_planner s =
     (if at_least (step s) 2 \<and> plan s = None
      then (case analysis s of
              None \<Rightarrow> (Raised AttributeError, s)
            | Some a \<Rightarrow>
                (let s1 = s\<lparr>create_plan_calls := create_plan_calls s + 1\<rparr>
                 in case create_plan a of
                      Inl e \<Rightarrow> (Raised e, s1)
                    | Inr p \<Rightarrow>
                        (Continue, s1\<lparr>plan := Some p,
                                      create_plan_returns := create_plan_returns s1 + 1\<rparr>)))
      else (Continue, s))"

definition stage_to_advisor :: "ui \<Rightarrow> session \<Rightarrow> signal \<times> session" where
  "stage_to_advisor u s =
     (if step s = Some 2 \<and> clicked u = ActivateAdvisor
      then (Rerun, s\<lparr>step := Some 3\<rparr>)
      else (Continue, s))"

definition stage_advisor :: "session \<Rightarrow> signal \<times> session" where
  "stage_advisor s =
     (if at_least (step s) 3 \<and> advisor s = None
      then (case (analysis s, plan s) of
              (Some a, Some p) \<Rightarrow> (Continue, s\<lparr>advisor := Some \<lparr>adv_analysis = a, adv_plan = p\<rparr>\<rparr>)
            | _ \<Rightarrow> (Raised AttributeError, s))
      else (Continue, s))"

text \<open>The final report, shown when \<open>step == 3\<close>: the charts, then the chat.\<close>

definition report_charts :: "(string \<Rightarrow> timestamp option) \<Rightarrow> session \<Rightarrow> signal \<times> session" where
  "report_charts parse s =
     (case (financial_data s, analysis s, plan s, advisor s) of
        (Some data, Some a, Some p, Some adv) \<Rightarrow>
          (case create_visualizations parse data of
             (Inl e, data') \<Rightarrow> (Raised e, s\<lparr>financial_data := Some data'\<rparr>)
           | (Inr _, data') \<Rightarrow> (Continue, s\<lparr>financial_data := Some data'\<rparr>))
      | _ \<Rightarrow> (Raised AttributeError, s))"

definition report_init_chat :: "session \<Rightarrow> signal \<times> session" where
  "report_init_chat s =
     (Continue, if chat_history s = None then s\<lparr>chat_history := Some []\<rparr> else s)"

definition report_init_suggestions :: "ui \<Rightarrow> session \<Rightarrow> signal \<times> session" where
  "report_init_suggestions u s =
     (if suggested_questions s = None
      then (case analysis s of
              None \<Rightarrow> (Raised AttributeError, s)
            | Some a \<Rightarrow>
                (case generate_suggested_questions (draws u) a of
                   Inl e \<Rightarrow> (Raised e, s)
                 | Inr qs \<Rightarrow> (Continue, s\<lparr>suggested_questions := Some qs\<rparr>)))
      else (Continue, s))"

definition append_chat :: "chat_message \<Rightarrow> session \<Rightarrow> session" where
  "append_chat m s =
     s\<lparr>chat_history := Some ((case chat_history s of None \<Rightarrow> [] | Some h \<Rightarrow> h) @ [m])\<rparr>"

definition report_suggestion_buttons :: "ui \<Rightarrow> session \<Rightarrow> signal \<times> session" where
  "report_suggestion_buttons u s =
     (case (suggested_questions s, clicked u) of
        (Some qs, Suggestion i) \<Rightarrow>
          (if i < length qs
           then (Rerun, (append_chat \<lparr>role = ''user'', content = qs ! i\<rparr> s)
                          \<lparr>suggested_questions := None\<rparr>)
           else (Continue, s))
      | _ \<Rightarrow> (Continue, s))"

definition report_chat_input :: "ui \<Rightarrow> session \<Rightarrow> signal \<times> session" where
  "report_chat_input u s =
     (case clicked u of
        ChatInput prompt \<Rightarrow>
          (if prompt \<noteq> []
           then (Rerun, append_chat \<lparr>role = ''user'', content = prompt\<rparr>
                          (s\<lparr>suggested_questions := None\<rparr>))
           else (Continue, s))
      | _ \<Rightarrow> (Continue, s))"

definition report_answer :: "session \<Rightarrow> signal \<times> session" where
  "report_answer s =
     (case chat_history s of
        None \<Rightarrow> (Raised AttributeError, s)
      | Some h \<Rightarrow>
          (if h \<noteq> [] \<and> role (last h) = ''user''
           then (case advisor s of
                   None \<Rightarrow> (Raised AttributeError, s)
                 | Some adv \<Rightarrow>
                     (case generate_advice adv (content (last h)) of
                        (Inl e, adv') \<Rightarrow> (Raised e, s\<lparr>advisor := Some adv'\<rparr>)
                      | (Inr response, adv') \<Rightarrow>
                          (Continue, append_chat \<lparr>role = ''assistant'', content = response\<rparr>
                                       (s\<lparr>advisor := Some adv'\<rparr>))))
           else (Continue, s)))"

definition stage_report :: "(string \<Rightarrow> timestamp option) \<Rightarrow> ui \<Rightarrow> session \<Rightarrow> signal \<times> session" where
  "stage_report parse u s =
     (if step s = Some 3
      then and_then (and_then (and_then (and_then (and_then
             (report_charts parse s)
             report_init_chat)
             (report_init_suggestions u))
             (report_suggestion_buttons u))
             (report_chat_input u))
             report_answer
      else (Continue, s))"

text \<open>
  One run of the script. A frame has the four required columns by its type, so the
  branch that reports missing columns and returns is not taken.
\<close>

definition run_script :: "(string \<Rightarrow> timestamp option) \<Rightarrow> ui \<Rightarrow> session \<Rightarrow> signal \<times> session" where
  "run_script parse u s0 =
     (let s = run_sidebar u s0
      in if financial_data s = None then (Continue, s)
         else and_then (and_then (and_then (and_then (and_then (and_then (and_then
                (Continue, if step s = None then s\<lparr>step := Some 0\<rparr> else s)
                (stage_idle u))
                (stage_analyzer parse))
                (stage_to_planner u))
                stage_planner)
                (stage_to_advisor u))
                stage_advisor)
                (stage_report parse u))"

text \<open>
  \<open>st.rerun()\<close> ends the run and starts the script again: no button fires in the new
  run, a file in the uploader is still there.
\<close>

definition rerun_ui :: "ui \<Rightarrow> ui" where
  "rerun_ui u =
     u\<lparr>sidebar_input := (case sidebar_input u of UseSampleData _ \<Rightarrow> UseSampleData None
                                                | UploadCSV f \<Rightarrow> UploadCSV f),
       clicked := NoClick\<rparr>"

definition main :: "(string \<Rightarrow> timestamp option) \<Rightarrow> ui \<Rightarrow> session \<Rightarrow> signal \<times> session" where
  "main parse u s =
     (case run_script parse u s of
        (Rerun, s') \<Rightarrow> run_script parse (rerun_ui u) s'
      | r \<Rightarrow> r)"

text \<open>A sequence of interactions; the session state survives a run that raised.\<close>

fun run_all :: "(string \<Rightarrow> timestamp option) \<Rightarrow> ui list \<Rightarrow> session \<Rightarrow> session" where
  "run_all parse [] s = s"
| "run_all parse (u # us) s = run_all parse us (snd (main parse u s))"

text \<open>A run stores new data, and deletes what was cached, when the sidebar delivers a frame.\<close>

definition resets :: "ui \<Rightarrow> bool" where
  "resets u =
     (case sidebar_input u of UseSampleData None \<Rightarrow> False | UploadCSV None \<Rightarrow> False | _ \<Rightarrow> True)"

text \<open>
  A parser for the dates of the form \<^verbatim>\<open>YYYY-MM-DD\<close> that \<open>load_sample_data\<close>
  writes, as an instance of the parameter \<open>parse\<close> in the examples below.
\<close>

definition digit_val :: "char \<Rightarrow> int option" where
  "digit_val c = map_option int (map_of (zip ''0123456789'' [0 ..< 10]) c)"

definition iso_date :: "string \<Rightarrow> timestamp option" where
  "iso_date s =
     (case map digit_val s of
        [Some y1, Some y2, Some y3, Some y4, None, Some m1, Some m2, None, Some d1, Some d2] \<Rightarrow>
          (let y = 1000 * y1 + 100 * y2 + 10 * y3 + y4; m = 10 * m1 + m2; d = 10 * d1 + d2
           in if s ! 4 = CHR ''-'' \<and> s ! 7 = CHR ''-'' \<and> 1 \<le> m \<and> m \<le> 12 \<and> 1 \<le> d \<and> d \<le> 31
              then Some \<lparr>ts_year = y, ts_month = m, ts_day = d\<rparr>
              else None)
      | _ \<Rightarrow> None)"

section \<open>The routing policy in the words of the specification\<close>

text \<open>
  The specification gives the routes of the advisor as a list in priority order, each
  with its keywords, matched against the lower-cased query; the first route with a
  keyword in the query wins, and a query that matches none gets the fallback.
  \<open>spec_route\<close> follows these words; \<open>generate_advice\<close> above follows the source.
\<close>

datatype route = Summarize | Savings | Spending | Fallback

definition spec_routes :: "(string list \<times> route) list" where
  "spec_routes =
     [([''summarize'', ''health''], Summarize),
      ([''savings'', ''save''], Savings),
      ([''spending'', ''expenses''], Spending)]"

definition spec_route :: "string \<Rightarrow> route" where
  "spec_route query =
     (case find (\<lambda>(kws, r). list_ex (\<lambda>k. str_contains k (lower query)) kws) spec_routes of
        Some (kws, r) \<Rightarrow> r
      | None \<Rightarrow> Fallback)"

definition route_reply :: "metrics \<Rightarrow> route \<Rightarrow> py_error + string" where
  "route_reply a r =
     (case r of Summarize \<Rightarrow> Inr (summary_reply a) | Savings \<Rightarrow> Inr (savings_reply a)
      | Spending \<Rightarrow> spending_reply a | Fallback \<Rightarrow> Inr fallback_reply)"

definition advisor_keywords :: "string list" where
  "advisor_keywords = [''summarize'', ''health'', ''savings'', ''save'', ''spending'', ''expenses'']"

section \<open>Predicates on the session state\<close>

text \<open>A new session: \<open>st.session_state\<close> is empty.\<close>

definition initial_session :: session where
  "initial_session =
     \<lparr>financial_data = None, step = None, analysis = None, plan = None, advisor = None,
      chat_history = None, suggested_questions = None,
      analyze_calls = 0, analyze_returns = 0, create_plan_calls = 0, create_plan_returns = 0\<rparr>"

text \<open>
  How the two caches and their probes may change from a state to a later one: a cache
  that is filled keeps its value and its function is not called; a cache that is empty
  stays empty, or is filled by one call that returned.
\<close>

definition cache_step :: "session \<Rightarrow> session \<Rightarrow> bool" where
  "cache_step s s' \<longleftrightarrow>
     (if analysis s = None
      then analysis s' = None \<and> analyze_returns s' = analyze_returns s \<or>
           analysis s' \<noteq> None \<and> analyze_returns s' = analyze_returns s + 1
      else analysis s' = analysis s \<and> analyze_calls s' = analyze_calls s \<and>
           analyze_returns s' = analyze_returns s) \<and>
     (if plan s = None
      then plan s' = None \<and> create_plan_returns s' = create_plan_returns s \<or>
           plan s' \<noteq> None \<and> create_plan_returns s' = create_plan_returns s + 1
      else plan s' = plan s \<and> create_plan_calls s' = create_plan_calls s \<and>
           create_plan_returns s' = create_plan_returns s)"

text \<open>
  The cached plan is what \<open>create_plan\<close> returned for the cached analysis, and the
  advisor holds the cached analysis and plan.
\<close>

definition consistent :: "session \<Rightarrow> bool" where
  "consistent s \<longleftrightarrow>
     (\<forall>p. plan s = Some p \<longrightarrow> (\<exists>a. analysis s = Some a \<and> create_plan a = Inr p)) \<and>
     (\<forall>adv. advisor s = Some adv \<longrightarrow>
        analysis s = Some (adv_analysis adv) \<and> plan s = Some (adv_plan adv))"

definition is_datetime :: "date_cell \<Rightarrow> bool" where
  "is_datetime c = (case c of Ts t \<Rightarrow> True | DateStr s \<Rightarrow> False)"

section \<open>Example data\<close>

text \<open>One month of salary and two expenses, with the dates as strings.\<close>

definition sample_data :: frame where
  "sample_data =
     [\<lparr>date = DateStr ''2025-04-01'', income = 45000, spending = 0, category = ''Salary''\<rparr>,
      \<lparr>date = DateStr ''2025-04-02'', income = 0, spending = 3000, category = ''Food''\<rparr>,
      \<lparr>date = DateStr ''2025-04-03'', income = 0, spending = 20000, category = ''Housing''\<rparr>]"

text \<open>The same frame after its date column was converted.\<close>

definition parsed_data :: frame where
  "parsed_data =
     [\<lparr>date = Ts \<lparr>ts_year = 2025, ts_month = 4, ts_day = 1\<rparr>, income = 45000, spending = 0,
       category = ''Salary''\<rparr>,
      \<lparr>date = Ts \<lparr>ts_year = 2025, ts_month = 4, ts_day = 2\<rparr>, income = 0, spending = 3000,
       category = ''Food''\<rparr>,
      \<lparr>date = Ts \<lparr>ts_year = 2025, ts_month = 4, ts_day = 3\<rparr>, income = 0, spending = 20000,
       category = ''Housing''\<rparr>]"

definition sample_metrics :: metrics where
  "sample_metrics =
     \<lparr>total_income = 45000, total_expenses = 23000, net_savings = 22000,
      savings_rate = 440 / 9, avg_monthly_income = Fin 45000,
      expense_by_category = [(''Food'', 3000), (''Housing'', 20000)]\<rparr>"

definition sample_plan :: financial_plan where
  "sample_plan =
     \<lparr>recommendations =
        [\<lparr>rec_type = ''success'', title = ''Excellent Savings Rate'',
          message = ''Great job! Your 48.9% savings rate is above average.''\<rparr>,
         \<lparr>rec_type = ''warning'', title = ''High Housing Spending'',
          message = ''Housing spending is 44.4% of income. Consider reducing to 10%.''\<rparr>],
      goals = [''Reduce Housing spending by 30%'']\<rparr>"

definition sample_advisor :: advisor where
  "sample_advisor = \<lparr>adv_analysis = sample_metrics, adv_plan = sample_plan\<rparr>"

text \<open>A frame with one expense and no income, and its analysis.\<close>

definition zero_income_data :: frame where
  "zero_income_data =
     [\<lparr>date = DateStr ''2025-04-01'', income = 0, spending = 100, category = ''Food''\<rparr>]"

definition zero_income_metrics :: metrics where
  "zero_income_metrics =
     \<lparr>total_income = 0, total_expenses = 100, net_savings = - 100, savings_rate = 0,
      avg_monthly_income = NaN, expense_by_category = [(''Food'', 100)]\<rparr>"

definition zero_income_plan :: financial_plan where
  "zero_income_plan =
     \<lparr>recommendations =
        [\<lparr>rec_type = ''critical'', title = ''Low Savings Rate Detected'',
          message = ''Your savings rate is 0.0%. Target at least 15-20% for financial stability.''\<rparr>,
         \<lparr>rec_type = ''warning'', title = ''High Food Spending'',
          message = ''Food spending is inf% of income. Consider reducing to 10%.''\<rparr>],
      goals = [''Increase savings rate to 15% within 3 months'', ''Reduce Food spending by 30%'']\<rparr>"

text \<open>Metrics of a frame with income rows only: no category has spending.\<close>

definition income_only_metrics :: metrics where
  "income_only_metrics =
     \<lparr>total_income = 45000, total_expenses = 0, net_savings = 45000, savings_rate = 100,
      avg_monthly_income = Fin 45000, expense_by_category = []\<rparr>"

text \<open>Runs of the script: one with a click, one that loads the sample data.\<close>

definition press :: "click \<Rightarrow> ui" where
  "press c = \<lparr>sidebar_input = UseSampleData None, clicked = c, draws = (\<lambda>i. 0)\<rparr>"

definition load_sample :: "frame \<Rightarrow> ui" where
  "load_sample df = \<lparr>sidebar_input = UseSampleData (Some df), clicked = NoClick, draws = (\<lambda>i. 0)\<rparr>"

definition to_analyzed :: "ui list" where
  "to_analyzed = [load_sample sample_data, press StartAnalysis]"

definition to_planned :: "ui list" where
  "to_planned = to_analyzed @ [press SendToPlanner]"

definition to_advisor_ready :: "ui list" where
  "to_advisor_ready = to_planned @ [press ActivateAdvisor]"


section \<open>Lemmas on the series operations and on analyze\<close>

lemma to_datetime_length: "to_datetime parse cs = Some ts \<Longrightarrow> length ts = length cs"
  by (induction cs arbitrary: ts) (auto split: option.splits)

lemma assign_date_income:
  assumes "length data = length ts"
  shows "map income (assign_date data ts) = map income data"
  using assms unfolding assign_date_def by (induction data ts rule: list_induct2) auto

lemma assign_date_spending:
  assumes "length data = length ts"
  shows "map spending (assign_date data ts) = map spending data"
  using assms unfolding assign_date_def by (induction data ts rule: list_induct2) auto

lemma assign_date_category:
  assumes "length data = length ts"
  shows "map category (assign_date data ts) = map category data"
  using assms unfolding assign_date_def by (induction data ts rule: list_induct2) auto



lemma groupby_sum_keys: "map fst (groupby_sum kvs) = sort (remdups (map fst kvs))"
  by (simp add: groupby_sum_def comp_def)

lemma groupby_sum_Nil_iff: "groupby_sum kvs = [] \<longleftrightarrow> kvs = []"
  by (simp add: groupby_sum_def flip: set_empty)


lemma foldl_argmax_mem: "foldl argmax_step kv kvs \<in> set (kv # kvs)"
  by (induction kvs arbitrary: kv) (auto simp: argmax_step_def)

lemma filter_distinct_key:
  "distinct (map fst s) \<Longrightarrow> kv \<in> set s \<Longrightarrow> filter (\<lambda>x. fst x = fst kv) s = [kv]"
proof (induction s)
  case Nil
  then show ?case by simp
next
  case (Cons a s)
  show ?case
  proof (cases "a = kv")
    case True
    have "fst kv \<notin> fst ` set s"
      using Cons.prems(1) True by simp
    then have "\<forall>x\<in>set s. fst x \<noteq> fst kv"
      by (metis imageI)
    then have "filter (\<lambda>x. fst x = fst kv) s = []"
      by (simp add: filter_empty_conv)
    with True show ?thesis by simp
  next
    case False
    with Cons.prems have "kv \<in> set s" by simp
    moreover from this Cons.prems(1) have "fst a \<noteq> fst kv" by force
    ultimately show ?thesis using Cons by simp
  qed
qed

lemma idxmax_Nil: "idxmax [] = Inl ValueError"
  by (simp add: idxmax_def)

lemma idxmax_nonempty:
  assumes "s \<noteq> []"
  shows "\<exists>kv. kv \<in> set s \<and> idxmax s = Inr (fst kv)"
proof (cases s)
  case Nil
  with assms show ?thesis by simp
next
  case (Cons kv kvs)
  have "foldl argmax_step kv kvs \<in> set s"
    using foldl_argmax_mem [of kv kvs] Cons by simp
  moreover have "idxmax s = Inr (fst (foldl argmax_step kv kvs))"
    using Cons by (simp add: idxmax_def)
  ultimately show ?thesis by blast
qed

lemma top_share_distinct:
  "distinct (map fst (expense_by_category a)) \<Longrightarrow> kv \<in> set (expense_by_category a) \<Longrightarrow>
   top_share a (fst kv) = Inr (np_times (np_truediv (snd kv) (total_income a)) 100)"
  by (simp add: top_share_def series_getitem_def filter_distinct_key)

lemma assign_date_map_filter:
  assumes "length data = length ts"
    and "\<And>r d. f (r\<lparr>date := d\<rparr>) = f r"
    and "\<And>r d. P (r\<lparr>date := d\<rparr>) = P r"
  shows "map f (filter P (assign_date data ts)) = map f (filter P data)"
  using assms(1) unfolding assign_date_def
  by (induction data ts rule: list_induct2) (auto simp: assms(2,3))

lemma analyze_raises:
  "to_datetime parse (map date data) = None \<Longrightarrow> analyze parse data = (Inl DateParseError, data)"
  by (simp add: analyze_def)

lemma analyze_returns_metrics:
  assumes "to_datetime parse (map date data) = Some ts"
  shows "\<exists>a. analyze parse data = (Inr a, assign_date data ts) \<and>
     total_income a = sum_list (map income data) \<and>
     total_expenses a = sum_list (map spending data) \<and>
     net_savings a = total_income a - total_expenses a \<and>
     savings_rate a = (if 0 < total_income a then net_savings a / total_income a * 100 else 0) \<and>
     expense_by_category a =
       groupby_sum (map (\<lambda>r. (category r, spending r)) (filter (\<lambda>r. 0 < spending r) data))"
proof -
  have len: "length data = length ts"
    using to_datetime_length [OF assms] by simp
  have inc: "map income (assign_date data ts) = map income data"
    by (rule assign_date_income [OF len])
  have spe: "map spending (assign_date data ts) = map spending data"
    by (rule assign_date_spending [OF len])
  have grp: "map (\<lambda>r. (category r, spending r)) (filter (\<lambda>r. 0 < spending r) (assign_date data ts))
      = map (\<lambda>r. (category r, spending r)) (filter (\<lambda>r. 0 < spending r) data)"
    by (rule assign_date_map_filter [OF len]) simp_all
  show ?thesis
    using assms by (simp add: analyze_def Let_def inc spe grp)
qed

lemma assign_date_dates:
  assumes "length data = length ts"
  shows "map date (assign_date data ts) = map Ts ts"
  using assms unfolding assign_date_def by (induction data ts rule: list_induct2) auto

lemma assign_date_length: "length data = length ts \<Longrightarrow> length (assign_date data ts) = length data"
  by (simp add: assign_date_def)

lemma assign_date_same:
  assumes "length data = length ts" and "map date data = map Ts ts"
  shows "assign_date data ts = data"
  using assms unfolding assign_date_def by (induction data ts rule: list_induct2) auto

lemma is_datetime_Ts: "is_datetime c \<Longrightarrow> \<exists>t. c = Ts t"
  by (cases c) (simp_all add: is_datetime_def)

lemma to_datetime_parsed:
  "\<forall>c\<in>set cs. \<exists>t. c = Ts t \<Longrightarrow> \<exists>ts. to_datetime parse cs = Some ts \<and> cs = map Ts ts"
proof (induction cs)
  case Nil
  then show ?case by simp
next
  case (Cons c cs)
  then obtain ts where "to_datetime parse cs = Some ts" "cs = map Ts ts" by auto
  moreover from Cons.prems obtain t where "c = Ts t" by auto
  ultimately show ?case by (auto simp: to_datetime_cell_def)
qed

section \<open>Lemmas on create_plan, the advisor and the sample\<close>

lemma create_plan_shape:
  assumes "create_plan a = Inr p"
  shows "\<exists>recs gs. recommendations p = savings_rule_rec a # recs \<and>
           goals p = savings_rule_goals a @ gs \<and>
           (\<forall>r\<in>set recs. rec_type r = ''warning'') \<and>
           (\<forall>g\<in>set gs. \<exists>c. g = ''Reduce '' @ c @ '' spending by 30%'')"
  using assms by (auto simp: create_plan_def Let_def split: sum.splits if_splits)

lemma create_plan_succeeds:
  assumes "expense_by_category a \<noteq> []" and "distinct (map fst (expense_by_category a))"
  shows "\<exists>p. create_plan a = Inr p"
proof -
  from idxmax_nonempty [OF assms(1)] obtain kv where
    kv: "kv \<in> set (expense_by_category a)" "idxmax (expense_by_category a) = Inr (fst kv)"
    by blast
  from top_share_distinct [OF assms(2) kv(1)] kv(2) show ?thesis
    by (simp add: create_plan_def Let_def)
qed

lemma summary_not_spending: "Inr (summary_reply a) \<noteq> spending_reply a"
  by (simp add: summary_reply_def spending_reply_def Let_def split: sum.splits)

lemma create_plan_nonempty: "create_plan a = Inr p \<Longrightarrow> expense_by_category a \<noteq> []"
  by (auto simp: create_plan_def idxmax_def)

lemma idxmax_Inr: "s \<noteq> [] \<Longrightarrow> \<exists>k. idxmax s = Inr k"
  by (cases s) (simp_all add: idxmax_def)

lemma generate_advice_self: "snd (generate_advice self query) = self"
  by (simp add: generate_advice_def Let_def)




lemma random_sample_all:
  "random_sample rnd xs (length xs) = Inr (sample_pool rnd 0 xs (length xs))"
  by (simp add: random_sample_def)

section \<open>Lemmas on the script\<close>

lemma cache_step_refl: "cache_step s s"
  by (simp add: cache_step_def)

lemma cache_step_trans: "cache_step s t \<Longrightarrow> cache_step t u \<Longrightarrow> cache_step s u"
  unfolding cache_step_def by (auto split: if_splits)

lemma cache_step_and_then:
  assumes "cache_step s (snd r)" and "\<And>t. cache_step t (snd (f t))"
  shows "cache_step s (snd (and_then r f))"
proof (cases r)
  case (Pair sig t)
  show ?thesis
  proof (cases sig)
    case Continue
    with Pair have "and_then r f = f t" by (simp add: and_then_def)
    with assms Pair show ?thesis
      using cache_step_trans [of s t "snd (f t)"] by simp
  qed (use assms Pair in \<open>simp_all add: and_then_def\<close>)
qed

lemma cache_stage_idle: "cache_step s (snd (stage_idle u s))"
  by (simp add: stage_idle_def cache_step_def)

lemma cache_stage_to_planner: "cache_step s (snd (stage_to_planner u s))"
  by (simp add: stage_to_planner_def cache_step_def)

lemma cache_stage_to_advisor: "cache_step s (snd (stage_to_advisor u s))"
  by (simp add: stage_to_advisor_def cache_step_def)

lemma cache_stage_analyzer: "cache_step s (snd (stage_analyzer parse s))"
  by (simp add: stage_analyzer_def cache_step_def Let_def split: option.splits prod.splits sum.splits)

lemma cache_stage_planner: "cache_step s (snd (stage_planner s))"
  by (simp add: stage_planner_def cache_step_def Let_def split: option.splits sum.splits)

lemma cache_stage_advisor: "cache_step s (snd (stage_advisor s))"
  by (simp add: stage_advisor_def cache_step_def split: option.splits)

lemma cache_report_charts: "cache_step s (snd (report_charts parse s))"
  by (simp add: report_charts_def cache_step_def split: option.splits prod.splits sum.splits)

lemma cache_report_init_chat: "cache_step s (snd (report_init_chat s))"
  by (simp add: report_init_chat_def cache_step_def)

lemma cache_report_init_suggestions: "cache_step s (snd (report_init_suggestions u s))"
  by (simp add: report_init_suggestions_def cache_step_def split: option.splits sum.splits)

lemma cache_report_suggestion_buttons: "cache_step s (snd (report_suggestion_buttons u s))"
  by (simp add: report_suggestion_buttons_def append_chat_def cache_step_def
      split: option.splits click.splits)

lemma cache_report_chat_input: "cache_step s (snd (report_chat_input u s))"
  by (simp add: report_chat_input_def append_chat_def cache_step_def split: click.splits)

lemma cache_report_answer: "cache_step s (snd (report_answer s))"
  by (simp add: report_answer_def append_chat_def cache_step_def
      split: option.splits prod.splits sum.splits)

lemma cache_stage_report: "cache_step s (snd (stage_report parse u s))"
  unfolding stage_report_def
  by (auto intro!: cache_step_and_then cache_report_charts cache_report_init_chat
      cache_report_init_suggestions cache_report_suggestion_buttons cache_report_chat_input
      cache_report_answer cache_step_refl)

lemma run_sidebar_no_reset: "\<not> resets u \<Longrightarrow> run_sidebar u s = s"
  by (simp add: resets_def run_sidebar_def split: sidebar.splits option.splits)

lemma cache_run_script:
  assumes "\<not> resets u"
  shows "cache_step s (snd (run_script parse u s))"
proof -
  have init: "cache_step s (s\<lparr>step := Some 0\<rparr>)"
    by (simp add: cache_step_def)
  show ?thesis
    unfolding run_script_def run_sidebar_no_reset [OF assms] Let_def
    by (auto intro!: cache_step_and_then init cache_stage_idle cache_stage_analyzer
        cache_stage_to_planner cache_stage_planner cache_stage_to_advisor cache_stage_advisor
        cache_stage_report cache_step_refl)
qed

lemma rerun_ui_no_reset: "\<not> resets u \<Longrightarrow> \<not> resets (rerun_ui u)"
  by (simp add: resets_def rerun_ui_def split: sidebar.splits option.splits)

lemma cache_main:
  assumes "\<not> resets u"
  shows "cache_step s (snd (main parse u s))"
proof (cases "run_script parse u s")
  case (Pair sig t)
  have st: "cache_step s t"
    using cache_run_script [OF assms, of s parse] Pair by simp
  show ?thesis
  proof (cases sig)
    case Rerun
    have "cache_step t (snd (run_script parse (rerun_ui u) t))"
      by (rule cache_run_script [OF rerun_ui_no_reset [OF assms]])
    with st Pair Rerun show ?thesis
      by (auto simp: main_def intro: cache_step_trans)
  qed (use st Pair in \<open>simp_all add: main_def\<close>)
qed

lemma cache_run_all:
  "list_all (\<lambda>u. \<not> resets u) us \<Longrightarrow> cache_step s (run_all parse us s)"
proof (induction us arbitrary: s)
  case Nil
  show ?case by (simp add: cache_step_refl)
next
  case (Cons u us)
  then have "cache_step s (snd (main parse u s))"
    and "cache_step (snd (main parse u s)) (run_all parse us (snd (main parse u s)))"
    by (simp_all add: cache_main)
  then show ?case
    by (auto intro: cache_step_trans)
qed

lemma consistent_and_then:
  assumes "consistent (snd r)" and "\<And>t. consistent t \<Longrightarrow> consistent (snd (f t))"
  shows "consistent (snd (and_then r f))"
  using assms by (cases r; cases "fst r") (auto simp: and_then_def)

lemma consistent_stage_idle: "consistent s \<Longrightarrow> consistent (snd (stage_idle u s))"
  by (simp add: stage_idle_def consistent_def)

lemma consistent_stage_to_planner: "consistent s \<Longrightarrow> consistent (snd (stage_to_planner u s))"
  by (simp add: stage_to_planner_def consistent_def)

lemma consistent_stage_to_advisor: "consistent s \<Longrightarrow> consistent (snd (stage_to_advisor u s))"
  by (simp add: stage_to_advisor_def consistent_def)

lemma consistent_stage_analyzer: "consistent s \<Longrightarrow> consistent (snd (stage_analyzer parse s))"
  by (auto simp: stage_analyzer_def consistent_def Let_def split: option.splits prod.splits sum.splits)

lemma consistent_stage_planner: "consistent s \<Longrightarrow> consistent (snd (stage_planner s))"
  by (auto simp: stage_planner_def consistent_def Let_def split: option.splits sum.splits)

lemma consistent_stage_advisor: "consistent s \<Longrightarrow> consistent (snd (stage_advisor s))"
  by (auto simp: stage_advisor_def consistent_def split: option.splits)

lemma consistent_report_charts: "consistent s \<Longrightarrow> consistent (snd (report_charts parse s))"
  by (auto simp: report_charts_def consistent_def split: option.splits prod.splits sum.splits)

lemma consistent_report_init_chat: "consistent s \<Longrightarrow> consistent (snd (report_init_chat s))"
  by (simp add: report_init_chat_def consistent_def)

lemma consistent_report_init_suggestions:
  "consistent s \<Longrightarrow> consistent (snd (report_init_suggestions u s))"
  by (auto simp: report_init_suggestions_def consistent_def split: option.splits sum.splits)

lemma consistent_report_suggestion_buttons:
  "consistent s \<Longrightarrow> consistent (snd (report_suggestion_buttons u s))"
  by (auto simp: report_suggestion_buttons_def append_chat_def consistent_def
      split: option.splits click.splits)

lemma consistent_report_chat_input: "consistent s \<Longrightarrow> consistent (snd (report_chat_input u s))"
  by (auto simp: report_chat_input_def append_chat_def consistent_def split: click.splits)

lemma consistent_report_answer: "consistent s \<Longrightarrow> consistent (snd (report_answer s))"
proof -
  assume c: "consistent s"
  have adv: "snd (generate_advice adv q) = adv" for adv q
    by (rule generate_advice_self)
  show ?thesis
    using c
    by (auto simp: report_answer_def append_chat_def consistent_def
        split: option.splits prod.splits sum.splits dest!: arg_cong [where f = snd] simp: adv)
qed

lemma consistent_stage_report: "consistent s \<Longrightarrow> consistent (snd (stage_report parse u s))"
  unfolding stage_report_def
  by (auto intro!: consistent_and_then consistent_report_charts consistent_report_init_chat
      consistent_report_init_suggestions consistent_report_suggestion_buttons
      consistent_report_chat_input consistent_report_answer)

lemma consistent_run_sidebar: "consistent s \<Longrightarrow> consistent (run_sidebar u s)"
  by (auto simp: run_sidebar_def reset_keys_def consistent_def split: sidebar.splits option.splits)

lemma consistent_run_script:
  assumes "consistent s"
  shows "consistent (snd (run_script parse u s))"
proof -
  have side: "consistent (run_sidebar u s)"
    by (rule consistent_run_sidebar [OF assms])
  then have init: "consistent ((run_sidebar u s)\<lparr>step := Some 0\<rparr>)"
    by (simp add: consistent_def)
  show ?thesis
    unfolding run_script_def Let_def
    by (auto intro!: consistent_and_then side init consistent_stage_idle consistent_stage_analyzer
        consistent_stage_to_planner consistent_stage_planner consistent_stage_to_advisor
        consistent_stage_advisor consistent_stage_report)
qed

lemma consistent_main: "consistent s \<Longrightarrow> consistent (snd (main parse u s))"
  using consistent_run_script [of s parse u]
    consistent_run_script [of "snd (run_script parse u s)" parse "rerun_ui u"]
  by (auto simp: main_def split: prod.splits signal.splits)

lemma consistent_run_all: "consistent s \<Longrightarrow> consistent (run_all parse us s)"
  by (induction us arbitrary: s) (simp_all add: consistent_main)

lemma consistent_initial: "consistent initial_session"
  by (simp add: consistent_def initial_session_def)

lemma advisor_ready_plan:
  assumes "advisor (run_all parse us initial_session) = Some self"
  shows "create_plan (adv_analysis self) = Inr (adv_plan self)"
  using consistent_run_all [OF consistent_initial, of parse us] assms
  by (auto simp: consistent_def split: option.splits)

section \<open>The claims\<close>

subsection \<open>Rule 2 of the planner when the total income is zero\<close>

text \<open>
  Claim C1 says that with \<open>total_income == 0\<close> and expenses present, \<open>create_plan\<close>
  skips its second rule: no recommendation of type \<open>warning\<close> and no goal
  "Reduce ... spending by 30%". The source divides by the total income without the
  guard that \<open>analyze\<close> has. On the frame with one expense of 100 for Food and no
  income, whose analysis has a total income of zero, the division yields \<open>inf\<close>, the
  comparison with 15 holds, and the plan carries the warning and the goal.
\<close>

theorem create_plan_zero_income_fires_rule2:
  "fst (analyze iso_date zero_income_data) = Inr zero_income_metrics \<and>
   total_income zero_income_metrics = 0 \<and>
   expense_by_category zero_income_metrics \<noteq> [] \<and>
   create_plan zero_income_metrics = Inr zero_income_plan \<and>
   rec_type (recommendations zero_income_plan ! 1) = ''warning'' \<and>
   ''Reduce Food spending by 30%'' \<in> set (goals zero_income_plan)"
  by code_simp

subsection \<open>The caller's frame after analyze\<close>

text \<open>
  Claim C2, as amended: \<open>analyze\<close> keeps the number and the order of the rows and the
  income, spending and category of every row. The date column of the caller's frame it
  overwrites with the converted datetimes; when the conversion raises, the frame is
  left as it was. A frame whose dates are datetimes already is left unchanged.
\<close>

theorem analyze_frame_effect:
  "map income (snd (analyze parse data)) = map income data \<and>
   map spending (snd (analyze parse data)) = map spending data \<and>
   map category (snd (analyze parse data)) = map category data \<and>
   length (snd (analyze parse data)) = length data \<and>
   (case to_datetime parse (map date data) of
      None \<Rightarrow> snd (analyze parse data) = data
    | Some ts \<Rightarrow> map date (snd (analyze parse data)) = map Ts ts) \<and>
   (list_all (\<lambda>r. is_datetime (date r)) data \<longrightarrow> snd (analyze parse data) = data)"
proof -
  have parsed: "\<forall>c\<in>set (map date data). \<exists>t. c = Ts t"
    if "list_all (\<lambda>r. is_datetime (date r)) data"
    using that by (auto simp: list_all_iff dest: is_datetime_Ts)
  show ?thesis
  proof (cases "to_datetime parse (map date data)")
    case None
    then have "snd (analyze parse data) = data"
      by (simp add: analyze_def)
    with None show ?thesis
      by simp
  next
    case (Some ts)
    then have len: "length data = length ts"
      using to_datetime_length by fastforce
    have eq: "snd (analyze parse data) = assign_date data ts"
      using Some by (simp add: analyze_def Let_def)
    have same: "assign_date data ts = data" if "list_all (\<lambda>r. is_datetime (date r)) data"
    proof -
      from parsed [OF that] to_datetime_parsed [of "map date data" parse] Some
      have "map date data = map Ts ts" by auto
      with len show ?thesis by (rule assign_date_same)
    qed
    show ?thesis
      using Some same
      by (simp add: eq assign_date_income [OF len] assign_date_spending [OF len]
          assign_date_category [OF len] assign_date_dates [OF len] assign_date_length [OF len])
  qed
qed

text \<open>The theorem at a frame whose dates are datetimes.\<close>

theorem analyze_frame_effect_witness:
  "list_all (\<lambda>r. is_datetime (date r)) parsed_data \<and>
   snd (analyze iso_date parsed_data) = parsed_data \<and>
   map income (snd (analyze iso_date sample_data)) = map income sample_data"
proof -
  have h: "list_all (\<lambda>r. is_datetime (date r)) parsed_data"
    by (simp add: parsed_data_def is_datetime_def)
  from analyze_frame_effect [of iso_date parsed_data] h
  have "snd (analyze iso_date parsed_data) = parsed_data"
    by blast
  with h analyze_frame_effect [of iso_date sample_data] show ?thesis
    by blast
qed

text \<open>
  The claim as stated, that every field of every row is the same after the call, fails
  on the frame with three rows whose dates are strings: after the call they are
  datetimes.
\<close>

theorem analyze_changes_date_column:
  "snd (analyze iso_date sample_data) \<noteq> sample_data"
  by code_simp

subsection \<open>The savings rate\<close>

text \<open>
  Claim C3: on a frame whose dates convert, \<open>analyze\<close> returns metrics and does not
  raise; the savings rate is 0 when the total income is 0, and
  \<open>net_savings / total_income * 100\<close> when the total income is positive.
\<close>

theorem analyze_savings_rate:
  assumes "to_datetime parse (map date data) \<noteq> None"
  shows "\<exists>a. fst (analyze parse data) = Inr a \<and>
     total_income a = sum_list (map income data) \<and>
     net_savings a = sum_list (map income data) - sum_list (map spending data) \<and>
     (total_income a = 0 \<longrightarrow> savings_rate a = 0) \<and>
     (0 < total_income a \<longrightarrow> savings_rate a = net_savings a / total_income a * 100)"
proof -
  from assms obtain ts where "to_datetime parse (map date data) = Some ts"
    by blast
  from analyze_returns_metrics [OF this] show ?thesis
    by (auto simp: fst_def)
qed

text \<open>The theorem at a frame without income and at one with income.\<close>

theorem analyze_savings_rate_witness:
  "to_datetime iso_date (map date zero_income_data) \<noteq> None \<and>
   (\<exists>a. fst (analyze iso_date zero_income_data) = Inr a \<and> total_income a = 0 \<and>
      savings_rate a = 0) \<and>
   to_datetime iso_date (map date sample_data) \<noteq> None \<and>
   (\<exists>a. fst (analyze iso_date sample_data) = Inr a \<and> 0 < total_income a \<and>
      savings_rate a = net_savings a / total_income a * 100)"
proof -
  have h0: "to_datetime iso_date (map date zero_income_data) \<noteq> None"
    by code_simp
  have h1: "to_datetime iso_date (map date sample_data) \<noteq> None"
    by code_simp
  have i0: "sum_list (map income zero_income_data) = 0"
    by (simp add: zero_income_data_def)
  have i1: "0 < sum_list (map income sample_data)"
    by (simp add: sample_data_def)
  from analyze_savings_rate [OF h0] i0
  have "\<exists>a. fst (analyze iso_date zero_income_data) = Inr a \<and> total_income a = 0 \<and>
      savings_rate a = 0"
    by auto
  moreover from analyze_savings_rate [OF h1] i1
  have "\<exists>a. fst (analyze iso_date sample_data) = Inr a \<and> 0 < total_income a \<and>
      savings_rate a = net_savings a / total_income a * 100"
    by auto
  ultimately show ?thesis
    using h0 h1 by blast
qed

subsection \<open>The planner without expenses\<close>

text \<open>
  Claim C4: when \<open>expense_by_category\<close> is empty, \<open>create_plan\<close> does not return a
  plan: \<open>idxmax\<close> raises ValueError.
\<close>

theorem create_plan_empty_expenses:
  "expense_by_category a = [] \<Longrightarrow> create_plan a = Inl ValueError"
  by (simp add: create_plan_def idxmax_def)

theorem create_plan_empty_expenses_witness:
  "expense_by_category income_only_metrics = [] \<and>
   create_plan income_only_metrics = Inl ValueError"
proof -
  have h: "expense_by_category income_only_metrics = []"
    by (simp add: income_only_metrics_def)
  from create_plan_empty_expenses [OF h] h show ?thesis
    by simp
qed

subsection \<open>The savings-rate rule\<close>

text \<open>
  Claim C5: every plan that \<open>create_plan\<close> returns has at least one recommendation.
  Its first recommendation is of type \<open>critical\<close>, titled "Low Savings Rate Detected",
  with the goal "Increase savings rate to 15% within 3 months", when the savings rate
  is below 10, and of type \<open>success\<close>, titled "Excellent Savings Rate", without that
  goal, otherwise; a plan has a \<open>critical\<close> recommendation exactly when the savings
  rate is below 10, and a \<open>success\<close> one exactly when it is not. The function returns
  a plan for all metrics whose \<open>expense_by_category\<close> is not empty and has one entry
  per category.
\<close>

theorem create_plan_savings_rule:
  "(\<forall>p. create_plan a = Inr p \<longrightarrow>
      recommendations p \<noteq> [] \<and>
      (savings_rate a < 10 \<longrightarrow>
         rec_type (hd (recommendations p)) = ''critical'' \<and>
         title (hd (recommendations p)) = ''Low Savings Rate Detected'' \<and>
         ''Increase savings rate to 15% within 3 months'' \<in> set (goals p)) \<and>
      (\<not> savings_rate a < 10 \<longrightarrow>
         rec_type (hd (recommendations p)) = ''success'' \<and>
         title (hd (recommendations p)) = ''Excellent Savings Rate'' \<and>
         ''Increase savings rate to 15% within 3 months'' \<notin> set (goals p)) \<and>
      ((\<exists>r\<in>set (recommendations p). rec_type r = ''critical'') \<longleftrightarrow> savings_rate a < 10) \<and>
      ((\<exists>r\<in>set (recommendations p). rec_type r = ''success'') \<longleftrightarrow> \<not> savings_rate a < 10)) \<and>
   (expense_by_category a \<noteq> [] \<and> distinct (map fst (expense_by_category a)) \<longrightarrow>
      (\<exists>p. create_plan a = Inr p))"
proof (intro conjI allI impI)
  fix p
  assume "create_plan a = Inr p"
  from create_plan_shape [OF this] obtain recs gs where
    shape: "recommendations p = savings_rule_rec a # recs" "goals p = savings_rule_goals a @ gs"
      "\<forall>r\<in>set recs. rec_type r = ''warning''"
      "\<forall>g\<in>set gs. \<exists>c. g = ''Reduce '' @ c @ '' spending by 30%''"
    by blast
  show "recommendations p \<noteq> []"
    by (simp add: shape(1))
  show "rec_type (hd (recommendations p)) = ''critical''"
    "title (hd (recommendations p)) = ''Low Savings Rate Detected''"
    "''Increase savings rate to 15% within 3 months'' \<in> set (goals p)"
    if "savings_rate a < 10"
    using that by (simp_all add: shape(1,2) savings_rule_rec_def savings_rule_goals_def)
  show "rec_type (hd (recommendations p)) = ''success''"
    "title (hd (recommendations p)) = ''Excellent Savings Rate''"
    if "\<not> savings_rate a < 10"
    using that by (simp_all add: shape(1) savings_rule_rec_def)
  show "''Increase savings rate to 15% within 3 months'' \<notin> set (goals p)"
    if "\<not> savings_rate a < 10"
    using that shape(4) by (auto simp: shape(2) savings_rule_goals_def)
  show "(\<exists>r\<in>set (recommendations p). rec_type r = ''critical'') \<longleftrightarrow> savings_rate a < 10"
    using shape(3) by (auto simp: shape(1) savings_rule_rec_def)
  show "(\<exists>r\<in>set (recommendations p). rec_type r = ''success'') \<longleftrightarrow> \<not> savings_rate a < 10"
    using shape(3) by (auto simp: shape(1) savings_rule_rec_def)
next
  assume "expense_by_category a \<noteq> [] \<and> distinct (map fst (expense_by_category a))"
  then show "\<exists>p. create_plan a = Inr p"
    using create_plan_succeeds by blast
qed

text \<open>The theorem at metrics with a savings rate of 48.9 and at metrics with a rate of 0.\<close>

theorem create_plan_savings_rule_witness:
  "create_plan sample_metrics = Inr sample_plan \<and> \<not> savings_rate sample_metrics < 10 \<and>
   rec_type (hd (recommendations sample_plan)) = ''success'' \<and>
   ''Increase savings rate to 15% within 3 months'' \<notin> set (goals sample_plan) \<and>
   create_plan zero_income_metrics = Inr zero_income_plan \<and> savings_rate zero_income_metrics < 10 \<and>
   rec_type (hd (recommendations zero_income_plan)) = ''critical'' \<and>
   ''Increase savings rate to 15% within 3 months'' \<in> set (goals zero_income_plan)"
proof -
  have p1: "create_plan sample_metrics = Inr sample_plan"
    by code_simp
  have r1: "\<not> savings_rate sample_metrics < 10"
    by (simp add: sample_metrics_def)
  have p0: "create_plan zero_income_metrics = Inr zero_income_plan"
    by code_simp
  have r0: "savings_rate zero_income_metrics < 10"
    by (simp add: zero_income_metrics_def)
  from create_plan_savings_rule [of sample_metrics] p1 r1
    create_plan_savings_rule [of zero_income_metrics] p0 r0
  show ?thesis
    by blast
qed

subsection \<open>The priority of the advisor's routes\<close>

text \<open>
  Claim C6: the answer of \<open>generate_advice\<close> is the reply of the first route, in the
  order summarize/health, savings/save, spending/expenses, fallback, that has a keyword
  in the lower-cased query; a query with both "summarize" and "spending" gets the
  overview reply, which is never the reply of the spending route.
\<close>

theorem generate_advice_priority:
  "fst (generate_advice self query) = route_reply (adv_analysis self) (spec_route query) \<and>
   (str_contains ''summarize'' (lower query) \<and> str_contains ''spending'' (lower query) \<longrightarrow>
      fst (generate_advice self query) = Inr (summary_reply (adv_analysis self)) \<and>
      fst (generate_advice self query) \<noteq> spending_reply (adv_analysis self))"
  by (simp add: generate_advice_def Let_def spec_route_def spec_routes_def route_reply_def
      summary_not_spending)

theorem generate_advice_priority_witness:
  "str_contains ''summarize'' (lower ''Please SUMMARIZE my spending'') \<and>
   str_contains ''spending'' (lower ''Please SUMMARIZE my spending'') \<and>
   fst (generate_advice sample_advisor ''Please SUMMARIZE my spending'')
     = Inr (summary_reply (adv_analysis sample_advisor)) \<and>
   fst (generate_advice sample_advisor ''Please SUMMARIZE my spending'')
     \<noteq> spending_reply (adv_analysis sample_advisor)"
proof -
  have h1: "str_contains ''summarize'' (lower ''Please SUMMARIZE my spending'')"
    by code_simp
  have h2: "str_contains ''spending'' (lower ''Please SUMMARIZE my spending'')"
    by code_simp
  from generate_advice_priority [of sample_advisor "''Please SUMMARIZE my spending''"] h1 h2
  show ?thesis
    by blast
qed

subsection \<open>The advisor answers every query\<close>

text \<open>
  Claim C7: for the advisor of every session state that the script reaches from a new
  session, and for every query, \<open>generate_advice\<close> returns a string and does not
  raise, the advisor with its analysis and plan is the same after the call, and a query
  with none of the keywords gets the fallback string.
\<close>

theorem generate_advice_total:
  assumes "advisor (run_all parse us initial_session) = Some self"
  shows "(\<exists>response. fst (generate_advice self query) = Inr response) \<and>
     snd (generate_advice self query) = self \<and>
     (\<not> list_ex (\<lambda>k. str_contains k (lower query)) advisor_keywords \<longrightarrow>
        fst (generate_advice self query) = Inr fallback_reply)"
proof -
  have "create_plan (adv_analysis self) = Inr (adv_plan self)"
    by (rule advisor_ready_plan [OF assms])
  from create_plan_nonempty [OF this] obtain k
    where "idxmax (expense_by_category (adv_analysis self)) = Inr k"
    using idxmax_Inr by blast
  then have "\<exists>r. spending_reply (adv_analysis self) = Inr r"
    by (simp add: spending_reply_def Let_def)
  then show ?thesis
    by (auto simp: generate_advice_def Let_def advisor_keywords_def)
qed

text \<open>The theorem at the advisor of the session that went through the three stages.\<close>

theorem generate_advice_total_witness:
  "advisor (run_all iso_date to_advisor_ready initial_session) = Some sample_advisor \<and>
   \<not> list_ex (\<lambda>k. str_contains k (lower ''Hello there'')) advisor_keywords \<and>
   fst (generate_advice sample_advisor ''Hello there'') = Inr fallback_reply \<and>
   snd (generate_advice sample_advisor ''Hello there'') = sample_advisor"
proof -
  have h: "advisor (run_all iso_date to_advisor_ready initial_session) = Some sample_advisor"
    by code_simp
  have k: "\<not> list_ex (\<lambda>k. str_contains k (lower ''Hello there'')) advisor_keywords"
    by code_simp
  from generate_advice_total [OF h, of "''Hello there''"] h k show ?thesis
    by blast
qed

subsection \<open>The caches of the script\<close>

text \<open>
  Claim C8: over every sequence of runs of the script in which no new data is loaded,
  a cached analysis is kept and \<open>analyze\<close> is not called again, a cached plan is kept
  and \<open>create_plan\<close> is not called again, and each of the two functions returns a
  result at most once.
\<close>

theorem cache_idempotence:
  assumes "list_all (\<lambda>u. \<not> resets u) us"
  shows "(analysis s \<noteq> None \<longrightarrow>
            analyze_calls (run_all parse us s) = analyze_calls s \<and>
            analysis (run_all parse us s) = analysis s) \<and>
         (plan s \<noteq> None \<longrightarrow>
            create_plan_calls (run_all parse us s) = create_plan_calls s \<and>
            plan (run_all parse us s) = plan s) \<and>
         analyze_returns (run_all parse us s) \<le> analyze_returns s + 1 \<and>
         create_plan_returns (run_all parse us s) \<le> create_plan_returns s + 1"
  using cache_run_all [OF assms, of s parse]
  by (auto simp: cache_step_def split: if_splits)

text \<open>
  The theorem at the session in which the plan is cached, with a run that renders the
  page again and clicks on the buttons of the stages.
\<close>

theorem cache_idempotence_witness:
  "list_all (\<lambda>u. \<not> resets u) [press NoClick, press StartAnalysis, press SendToPlanner] \<and>
   analysis (run_all iso_date to_planned initial_session) \<noteq> None \<and>
   plan (run_all iso_date to_planned initial_session) \<noteq> None \<and>
   analyze_calls (run_all iso_date [press NoClick, press StartAnalysis, press SendToPlanner]
       (run_all iso_date to_planned initial_session))
     = analyze_calls (run_all iso_date to_planned initial_session) \<and>
   create_plan_calls (run_all iso_date [press NoClick, press StartAnalysis, press SendToPlanner]
       (run_all iso_date to_planned initial_session))
     = create_plan_calls (run_all iso_date to_planned initial_session)"
proof -
  have h: "list_all (\<lambda>u. \<not> resets u) [press NoClick, press StartAnalysis, press SendToPlanner]"
    by (simp add: resets_def press_def)
  have a: "analysis (run_all iso_date to_planned initial_session) \<noteq> None"
    by code_simp
  have p: "plan (run_all iso_date to_planned initial_session) \<noteq> None"
    by code_simp
  from cache_idempotence [OF h, of "run_all iso_date to_planned initial_session" iso_date] h a p
  show ?thesis
    by blast
qed

subsection \<open>The expenses by category add up to the total\<close>



subsection \<open>The suggested questions\<close>



end
